theory Spec2Isabelle
  imports Complex_Main
begin

section \<open>Python values and builtins\<close>

text \<open>
  Records travel through the pipeline as decoded JSON. A decoded value is one of
  Python's \<open>None\<close>, \<open>bool\<close>, \<open>int\<close>, \<open>float\<close>, \<open>str\<close>, \<open>list\<close> or \<open>dict\<close>;
  a record itself is a Python \<open>dict\<close> with string keys. Floats are modelled as
  reals: rounding, infinities and NaN are outside the model.
\<close>

datatype json =
    JNull
  | JBool bool
  | JInt int
  | JReal real
  | JStr string
  | JArr "json list"
  | JObj "(string \<times> json) list"

type_synonym pydict = "string \<rightharpoonup> json"

datatype py_error =
  KeyError | ValueError | TypeError | AttributeError | OverflowError | OSError

text \<open>
  The parsers behind \<open>float(str)\<close> and \<open>int(str)\<close> and the text \<open>str(x)\<close> of a
  value that is not a string are Python's own; they are taken as parameters (\<open>None\<close>
  stands for \<open>ValueError\<close>).
\<close>

record builtins =
  float_of_str :: "string \<Rightarrow> real option"
  int_of_str :: "string \<Rightarrow> int option"
  repr_of :: "json \<Rightarrow> string"


text \<open>\<open>int(x)\<close> truncates a float towards zero.\<close>

definition trunc :: "real \<Rightarrow> int" where
  "trunc x = (if 0 \<le> x then \<lfloor>x\<rfloor> else \<lceil>x\<rceil>)"

fun py_int :: "builtins \<Rightarrow> json \<Rightarrow> py_error + int" where
  "py_int B JNull = Inl TypeError"
| "py_int B (JBool b) = Inr (if b then 1 else 0)"
| "py_int B (JInt i) = Inr i"
| "py_int B (JReal x) = Inr (trunc x)"
| "py_int B (JStr s) = (case int_of_str B s of None \<Rightarrow> Inl ValueError | Some i \<Rightarrow> Inr i)"
| "py_int B (JArr xs) = Inl TypeError"
| "py_int B (JObj kvs) = Inl TypeError"



text \<open>\<open>str(x)\<close>, also what an f-string field \<open>{x}\<close> expands to.\<close>

fun py_str :: "builtins \<Rightarrow> json \<Rightarrow> string" where
  "py_str B (JStr s) = s"
| "py_str B j = repr_of B j"

text \<open>\<open>d.get(k, default)\<close>.\<close>

definition dict_get :: "pydict \<Rightarrow> string \<Rightarrow> json \<Rightarrow> json" where
  "dict_get d k dflt = (case d k of None \<Rightarrow> dflt | Some v \<Rightarrow> v)"




section \<open>Quality validator (\<open>DataQualityValidator\<close>)\<close>













subsection \<open>The scoring rules as the specification words them\<close>









subsection \<open>Sample inputs\<close>

text \<open>
  An environment for records whose fields are JSON numbers and strings used as text:
  every string is rejected by \<open>float\<close> and \<open>int\<close>, and no value that is not a string
  is ever printed.
\<close>

definition numeric_builtins :: builtins where
  "numeric_builtins =
     \<lparr> float_of_str = (\<lambda>s. None), int_of_str = (\<lambda>s. None), repr_of = (\<lambda>j. ''?'') \<rparr>"




section \<open>Partitioned writer (\<open>S3Writer._get_partition_key\<close>)\<close>

text \<open>
  The fields of a \<open>datetime\<close> that the partition key reads.
\<close>

record py_datetime =
  dt_year :: int
  dt_month :: int
  dt_day :: int
  dt_hour :: int

text \<open>
  The proleptic Gregorian date of a day count since 1970-01-01, as
  \<open>datetime.fromtimestamp(_, tz=timezone.utc)\<close> computes it.
\<close>

definition civil_from_days :: "int \<Rightarrow> int \<times> int \<times> int" where
  "civil_from_days days =
     (let z = days + 719468;
          era = z div 146097;
          doe = z - era * 146097;
          yoe = (doe - doe div 1460 + doe div 36524 - doe div 146096) div 365;
          doy = doe - (365 * yoe + yoe div 4 - yoe div 100);
          mp = (5 * doy + 2) div 153;
          d = doy - (153 * mp + 2) div 5 + 1;
          m = (if mp < 10 then mp + 3 else mp - 9);
          y = yoe + era * 400 + (if m \<le> 2 then 1 else 0)
      in (y, m, d))"

text \<open>The UTC calendar fields of an instant given in epoch milliseconds.\<close>

definition utc_fields :: "int \<Rightarrow> py_datetime" where
  "utc_fields timestamp =
     (let secs = timestamp div 1000;
          (y, m, d) = civil_from_days (secs div 86400)
      in \<lparr> dt_year = y, dt_month = m, dt_day = d, dt_hour = (secs mod 86400) div 3600 \<rparr>)"

text \<open>
  \<open>datetime.fromtimestamp(timestamp / 1000, tz=timezone.utc)\<close> for an integer
  \<open>timestamp\<close> in milliseconds. A \<open>datetime\<close> holds the years 1 to 9999 (the instants
  from -62135596800000 up to, not including, 253402300800000); outside them the
  constructor raises \<open>ValueError\<close>. Further out, on 64-bit Linux, the C library's
  \<open>gmtime\<close> fails once the year leaves the range of a C \<open>int\<close> (\<open>OSError\<close>), and the
  conversion to \<open>time_t\<close> fails from \<open>2^63\<close> seconds on (\<open>OverflowError\<close>).
\<close>

definition datetime_fromtimestamp :: "int \<Rightarrow> py_error + py_datetime" where
  "datetime_fromtimestamp timestamp =
     (let dt = utc_fields timestamp;
          secs = timestamp div 1000
      in if 1 \<le> dt_year dt \<and> dt_year dt \<le> 9999 then Inr dt
         else if - (2 ^ 31) \<le> dt_year dt - 1900 \<and> dt_year dt - 1900 < 2 ^ 31 then Inl ValueError
         else if \<bar>secs\<bar> < 2 ^ 63 then Inl OSError
         else Inl OverflowError)"

text \<open>Decimal text of an integer (\<open>str(i)\<close>, \<open>{i}\<close>) and the format \<open>{i:02d}\<close>.\<close>

fun str_nat :: "nat \<Rightarrow> string" where
  "str_nat n =
     (if n < 10 then [char_of (48 + n)] else str_nat (n div 10) @ [char_of (48 + n mod 10)])"

declare str_nat.simps [simp del]

definition str_int :: "int \<Rightarrow> string" where
  "str_int i = (if i < 0 then CHR ''-'' # str_nat (nat (- i)) else str_nat (nat i))"

definition format_02d :: "int \<Rightarrow> string" where
  "format_02d i = (let s = str_int i in if length s < 2 then CHR ''0'' # s else s)"

text \<open>
  The \<open>try\<close> block of \<open>_get_partition_key\<close>: \<open>Inr (Some dt)\<close> when the timestamp
  converts, \<open>Inr None\<close> when \<open>except (ValueError, TypeError)\<close> catches the failure and
  the clock is used instead, \<open>Inl e\<close> when another exception escapes.
\<close>

definition timestamp_datetime :: "builtins \<Rightarrow> pydict \<Rightarrow> py_error + py_datetime option" where
  "timestamp_datetime B r =
     (let attempt =
            (case py_int B (dict_get r ''timestamp'' (JInt 0)) of
               Inl e \<Rightarrow> Inl e
             | Inr timestamp \<Rightarrow> datetime_fromtimestamp timestamp)
      in case attempt of
           Inr dt \<Rightarrow> Inr (Some dt)
         | Inl e \<Rightarrow> if e = ValueError \<or> e = TypeError then Inr None else Inl e)"

definition format_partition_key :: "string \<Rightarrow> string \<Rightarrow> py_datetime \<Rightarrow> string" where
  "format_partition_key exchange symbol dt =
     exchange @ ''/'' @ symbol @ ''/year='' @ str_int (dt_year dt)
       @ ''/month='' @ format_02d (dt_month dt)
       @ ''/day='' @ format_02d (dt_day dt)
       @ ''/hour='' @ format_02d (dt_hour dt)"

text \<open>\<open>now\<close> is the reading of \<open>datetime.now(timezone.utc)\<close>.\<close>

definition get_partition_key :: "builtins \<Rightarrow> py_datetime \<Rightarrow> pydict \<Rightarrow> py_error + string" where
  "get_partition_key B now r =
     (let exchange = dict_get r ''exchange'' (JStr ''unknown'');
          symbol = dict_get r ''symbol'' (JStr ''unknown'')
      in case timestamp_datetime B r of
           Inl e \<Rightarrow> Inl e
         | Inr parsed \<Rightarrow>
             (let dt = (case parsed of Some dt \<Rightarrow> dt | None \<Rightarrow> now)
              in Inr (format_partition_key (py_str B exchange) (py_str B symbol) dt)))"

text \<open>Whether a \<open>datetime\<close> can hold the instant: its UTC year is between 1 and 9999.\<close>

definition in_datetime_range :: "int \<Rightarrow> bool" where
  "in_datetime_range timestamp =
     (1 \<le> dt_year (utc_fields timestamp) \<and> dt_year (utc_fields timestamp) \<le> 9999)"

definition epoch_start :: py_datetime where
  "epoch_start = \<lparr> dt_year = 1970, dt_month = 1, dt_day = 1, dt_hour = 0 \<rparr>"

definition binance_record :: "json \<Rightarrow> pydict" where
  "binance_record ts =
     [''exchange'' \<mapsto> JStr ''binance'', ''symbol'' \<mapsto> JStr ''btcusdt'', ''timestamp'' \<mapsto> ts]"

definition sample_now :: py_datetime where
  "sample_now = \<lparr> dt_year = 2024, dt_month = 3, dt_day = 9, dt_hour = 17 \<rparr>"


section \<open>Stateful enricher (\<open>DataEnricher\<close>)\<close>












subsection \<open>The statistics as the specification words them\<close>







section \<open>Properties of the quality validator\<close>






















section \<open>Properties of the partition key\<close>


lemma utc_fields_epoch: "utc_fields 0 = epoch_start"
  by code_simp

lemma format_epoch:
  "format_partition_key ex sy epoch_start = ex @ ''/'' @ sy @ ''/year=1970/month=01/day=01/hour=00''"
proof -
  have "str_int 1970 = ''1970''" "format_02d 1 = ''01''" "format_02d 0 = ''00''"
    by code_simp+
  then show ?thesis
    by (simp add: format_partition_key_def epoch_start_def)
qed

lemma fromtimestamp_in_range:
  "in_datetime_range T \<Longrightarrow> datetime_fromtimestamp T = Inr (utc_fields T)"
  by (simp add: datetime_fromtimestamp_def in_datetime_range_def Let_def)

lemma fromtimestamp_returns:
  "datetime_fromtimestamp T = Inr dt \<Longrightarrow> in_datetime_range T \<and> dt = utc_fields T"
  by (auto simp: datetime_fromtimestamp_def in_datetime_range_def Let_def split: if_splits)

lemma timestamp_datetime_in_range:
  assumes "r ''timestamp'' = Some j" "py_int B j = Inr T" "in_datetime_range T"
  shows "timestamp_datetime B r = Inr (Some (utc_fields T))"
  using assms by (simp add: timestamp_datetime_def dict_get_def fromtimestamp_in_range)


lemma timestamp_datetime_absent:
  assumes "r ''timestamp'' = None"
  shows "timestamp_datetime B r = Inr (Some epoch_start)"
proof -
  have "in_datetime_range 0"
    by (simp add: in_datetime_range_def utc_fields_epoch epoch_start_def)
  then show ?thesis using assms
    by (simp add: timestamp_datetime_def dict_get_def fromtimestamp_in_range utc_fields_epoch)
qed

lemma timestamp_datetime_fallback:
  assumes "timestamp_datetime B r = Inr None"
  shows "\<exists>j. r ''timestamp'' = Some j \<and> (\<forall>T. py_int B j = Inr T \<longrightarrow> \<not> in_datetime_range T)"
proof (cases "r ''timestamp''")
  case None
  from timestamp_datetime_absent [of r B] None assms show ?thesis by simp
next
  case (Some j)
  have "\<not> in_datetime_range T" if "py_int B j = Inr T" for T
  proof
    assume "in_datetime_range T"
    from timestamp_datetime_in_range [of r j B T] Some that this assms show False by simp
  qed
  with Some show ?thesis by blast
qed


lemma datetime_range_bounds:
  "in_datetime_range (- 62135596800000)" "\<not> in_datetime_range (- 62135596800001)"
  "in_datetime_range 253402300799999" "\<not> in_datetime_range 253402300800000"
  by code_simp+




text \<open>
  Claim C10, as stated: the current-time fallback is reached only when a timestamp is
  present but cannot be converted to an integer. A timestamp given in microseconds
  converts to an integer, yet lies beyond the year 9999, and the key is built from the
  clock reading.
\<close>

theorem partition_key_microseconds_counterexample:
  "py_int numeric_builtins (JInt 1640995200000000) = Inr 1640995200000000
   \<and> timestamp_datetime numeric_builtins (binance_record (JInt 1640995200000000)) = Inr None
   \<and> get_partition_key numeric_builtins sample_now (binance_record (JInt 1640995200000000))
       = Inr ''binance/btcusdt/year=2024/month=03/day=09/hour=17''"
  by code_simp

text \<open>
  Claim C10, amended: for every record in which the timestamp field is absent, the key
  is computed from epoch 0, \<open>exchange/symbol/year=1970/month=01/day=01/hour=00\<close>,
  whatever the current time; the current-time fallback is reached only when a
  timestamp value is present and either cannot be converted to an integer or converts
  to an instant outside the years 1 to 9999.
\<close>

theorem partition_key_absent_timestamp:
  "(r ''timestamp'' = None \<longrightarrow>
      get_partition_key B now r =
        Inr (py_str B (dict_get r ''exchange'' (JStr ''unknown'')) @ ''/''
             @ py_str B (dict_get r ''symbol'' (JStr ''unknown''))
             @ ''/year=1970/month=01/day=01/hour=00''))
   \<and> (timestamp_datetime B r = Inr None \<longrightarrow>
        (\<exists>j. r ''timestamp'' = Some j \<and> (\<forall>T. py_int B j = Inr T \<longrightarrow> \<not> in_datetime_range T)))"
  using timestamp_datetime_absent [of r B] timestamp_datetime_fallback [of B r]
  by (auto simp: get_partition_key_def format_epoch)

theorem partition_key_absent_timestamp_witness:
  "[''exchange'' \<mapsto> JStr ''coinbase'', ''symbol'' \<mapsto> JStr ''ethusd''] ''timestamp'' = None
   \<and> get_partition_key numeric_builtins sample_now
        [''exchange'' \<mapsto> JStr ''coinbase'', ''symbol'' \<mapsto> JStr ''ethusd'']
       = Inr ''coinbase/ethusd/year=1970/month=01/day=01/hour=00''
   \<and> timestamp_datetime numeric_builtins (binance_record (JStr ''2022-01-01T00:00:00Z''))
       = Inr None
   \<and> (\<exists>j. binance_record (JStr ''2022-01-01T00:00:00Z'') ''timestamp'' = Some j
          \<and> (\<forall>T. py_int numeric_builtins j = Inr T \<longrightarrow> \<not> in_datetime_range T))"
proof -
  let ?r = "[''exchange'' \<mapsto> JStr ''coinbase'', ''symbol'' \<mapsto> JStr ''ethusd'']"
  let ?q = "binance_record (JStr ''2022-01-01T00:00:00Z'')"
  have a: "?r ''timestamp'' = None" by simp
  have b: "timestamp_datetime numeric_builtins ?q = Inr None"
    by (simp add: timestamp_datetime_def dict_get_def binance_record_def numeric_builtins_def)
  from partition_key_absent_timestamp [of ?r numeric_builtins sample_now] a
  have "get_partition_key numeric_builtins sample_now ?r
       = Inr ''coinbase/ethusd/year=1970/month=01/day=01/hour=00''"
    by (simp add: dict_get_def)
  moreover from partition_key_absent_timestamp [of ?q numeric_builtins sample_now] b
  have "\<exists>j. ?q ''timestamp'' = Some j
          \<and> (\<forall>T. py_int numeric_builtins j = Inr T \<longrightarrow> \<not> in_datetime_range T)"
    by blast
  ultimately show ?thesis using a b by blast
qed

section \<open>Properties of the enricher\<close>
















end
